theory Spec2Isabelle
  imports Complex_Main "HOL-Library.Word" "HOL-Library.Multiset"
begin

section \<open>JavaScript values\<close>

text \<open>
  A JavaScript string is a sequence of UTF-16 code units; \<open>length\<close> and \<open>slice\<close>
  count code units. String literals of the source are ASCII and are embedded with
  \<open>utf16\<close>.
\<close>

type_synonym code_unit = "16 word"
type_synonym jsstring = "code_unit list"

definition utf16 :: "string \<Rightarrow> jsstring" where
  "utf16 s = map of_char s"

text \<open>
  The numbers \<open>JSON.parse\<close> can produce: finite values, negative zero and the two
  infinities (an out-of-range literal such as \<open>1e999\<close>). No arithmetic is done on
  them here; only their truthiness is read.
\<close>

datatype jsnum = Finite rat | NegZero | PosInfinity | NegInfinity

text \<open>
  The value of \<open>await response.json()\<close> has the static type \<open>any\<close>. An object is the
  list of its own properties; a property that is looked up and not found reads as
  \<open>Undefined\<close>.
\<close>

datatype jsval =
    Undefined
  | Null
  | Boolean bool
  | Number jsnum
  | String jsstring
  | Array "jsval list"
  | Object "(jsstring \<times> jsval) list"

datatype js_error =
    TypeError
  | URIError
  | SyntaxError
  | NetworkError
  | HttpError nat jsstring

fun truthy :: "jsval \<Rightarrow> bool" where
  "truthy Undefined = False"
| "truthy Null = False"
| "truthy (Boolean b) = b"
| "truthy (Number n) = (n \<noteq> Finite 0 \<and> n \<noteq> NegZero)"
| "truthy (String s) = (s \<noteq> [])"
| "truthy (Array xs) = True"
| "truthy (Object ps) = True"

text \<open>\<open>a || b\<close>\<close>

definition js_or :: "jsval \<Rightarrow> jsval \<Rightarrow> jsval" where
  "js_or a b = (if truthy a then a else b)"

text \<open>\<open>Array.isArray\<close>\<close>

fun isArray :: "jsval \<Rightarrow> bool" where
  "isArray (Array xs) = True"
| "isArray v = False"

text \<open>
  Property access \<open>data.name\<close>, for the six names read by the hook (none of them is a
  built-in property of strings, arrays, numbers or booleans): reading a property of
  \<open>null\<close> or \<open>undefined\<close> throws a TypeError, an object yields its own property or
  \<open>undefined\<close>, every other value yields \<open>undefined\<close>.
\<close>

fun get_prop :: "jsval \<Rightarrow> jsstring \<Rightarrow> js_error + jsval" where
  "get_prop Undefined name = Inl TypeError"
| "get_prop Null name = Inl TypeError"
| "get_prop (Object ps) name = (case map_of ps name of None \<Rightarrow> Inr Undefined | Some v \<Rightarrow> Inr v)"
| "get_prop v name = Inr Undefined"

definition bind_result :: "js_error + 'a \<Rightarrow> ('a \<Rightarrow> js_error + 'b) \<Rightarrow> js_error + 'b" where
  "bind_result r k = (case r of Inl e \<Rightarrow> Inl e | Inr v \<Rightarrow> k v)"


section \<open>Messages and sessions\<close>

datatype Role = User | Assistant

text \<open>
  The object literal \<open>safeData\<close> built from a response. Its fields hold whatever the
  response held, so they are JavaScript values.
\<close>

record SafeData =
  organic_results :: jsval
  knowledge_graph :: jsval
  related_questions :: jsval
  related_searches :: jsval
  ai_response :: jsval
  local_results :: jsval

text \<open>
  \<open>interface ChatMessage\<close>. The field \<open>content\<close> is declared a string, but the hook
  stores \<open>safeData.ai_response\<close> there, which is any truthy value of the response, so the
  field holds a JavaScript value. \<open>results\<close> is optional.
\<close>

record ChatMessage =
  role :: Role
  content :: jsval
  results :: "SafeData option"

text \<open>
  \<open>interface ChatSession\<close>. The fields \<open>id\<close> and \<open>messages\<close> are named \<open>session_id\<close>
  and \<open>session_messages\<close> here. Timestamps are \<open>Date.now()\<close> values, integers.
\<close>

record ChatSession =
  session_id :: jsstring
  title :: jsstring
  session_messages :: "ChatMessage list"
  createdAt :: int
  updatedAt :: int


section \<open>getChatTitle\<close>

text \<open>
  The conversion \<open>ToString\<close> that a template literal applies to a value. An array is
  converted by \<open>Array.prototype.join\<close>: its elements are converted in turn and put
  together with commas, \<open>undefined\<close> and \<open>null\<close> elements giving the empty string. A
  parsed object gives \<open>[object Object]\<close>, unless it has an own property \<open>toString\<close>:
  no parsed value is callable, so the conversion finds no method that returns a
  primitive and throws a TypeError. \<open>Number.prototype.toString\<close> is a parameter.
\<close>

fun toStr :: "(jsnum \<Rightarrow> jsstring) \<Rightarrow> jsval \<Rightarrow> js_error + jsstring"
  and joinStr :: "(jsnum \<Rightarrow> jsstring) \<Rightarrow> jsval list \<Rightarrow> js_error + jsstring" where
  "toStr numberToString Undefined = Inr (utf16 ''undefined'')"
| "toStr numberToString Null = Inr (utf16 ''null'')"
| "toStr numberToString (Boolean b) = Inr (utf16 (if b then ''true'' else ''false''))"
| "toStr numberToString (Number x) = Inr (numberToString x)"
| "toStr numberToString (String s) = Inr s"
| "toStr numberToString (Array xs) = joinStr numberToString xs"
| "toStr numberToString (Object ps) =
     (if map_of ps (utf16 ''toString'') \<noteq> None then Inl TypeError
      else Inr (utf16 ''[object Object]''))"
| "joinStr numberToString [] = Inr []"
| "joinStr numberToString (v # vs) =
     bind_result (if v = Undefined \<or> v = Null then Inr [] else toStr numberToString v) (\<lambda>s.
       if vs = [] then Inr s
       else bind_result (joinStr numberToString vs) (\<lambda>rest. Inr (s @ utf16 '','' @ rest)))"

text \<open>
  \<open>firstUserMessage.content.slice(0, 30)\<close>: on a string, the first 30 code units; on
  an array, which has a \<open>slice\<close> of its own, the array of its first 30 elements, and the
  template literal \<open>`${title}...`\<close> then converts that array to a string. On
  \<open>undefined\<close>, \<open>null\<close>, a boolean, a number or a parsed object the call throws a
  TypeError. The result is a string, or the sliced array itself when the content is an
  array of at most 30 elements.
\<close>

definition getChatTitle :: "(jsnum \<Rightarrow> jsstring) \<Rightarrow> ChatMessage list \<Rightarrow> js_error + jsval" where
  "getChatTitle numberToString msgs =
     (case find (\<lambda>m. role m = User) msgs of
        None \<Rightarrow> Inr (String (utf16 ''New Chat''))
      | Some firstUserMessage \<Rightarrow>
          (case content firstUserMessage of
             String c \<Rightarrow>
               (let title = take 30 c
                in Inr (String (if length title < length c then title @ utf16 ''...'' else title)))
           | Array xs \<Rightarrow>
               (let title = take 30 xs
                in if length title < length xs
                   then bind_result (toStr numberToString (Array title)) (\<lambda>s.
                          Inr (String (s @ utf16 ''...'')))
                   else Inr (Array title))
           | _ \<Rightarrow> Inl TypeError))"


section \<open>The state of the hook\<close>

text \<open>
  The \<open>useState\<close> cells of \<open>useChatSessions\<close> that the session operations and the
  dispatcher read and write. The two cells of the title animation and its timers are
  cosmetic and left out.
\<close>

record store =
  sessions :: "ChatSession list"
  activeSessionId :: "jsstring option"
  messages :: "ChatMessage list"
  isLoading :: bool

definition initialStore :: store where
  "initialStore = \<lparr>sessions = [], activeSessionId = None, messages = [], isLoading = False\<rparr>"

text \<open>
  What a run of \<open>createNewSession\<close> draws from its environment: the result of
  \<open>generateId()\<close> and of the two calls of \<open>Date.now()\<close>.
\<close>

record entropy =
  generatedId :: jsstring
  nowCreated :: int
  nowUpdated :: int

text \<open>
  The calls a handler makes, in program order: the state setters, the fetch and the
  backoff timer. A setter given an updater function (\<open>setMessages((prev) => [...prev, m])\<close>)
  is applied to the state left by the calls before it. Console output is left out.
\<close>

datatype effect =
    PrependSession ChatSession
  | SetActiveSessionId jsstring
  | SetMessages "ChatMessage list"
  | AppendMessage ChatMessage
  | SetIsLoading bool
  | Fetch jsstring
  | Sleep nat

fun apply_effect :: "store \<Rightarrow> effect \<Rightarrow> store" where
  "apply_effect st (PrependSession s) = st\<lparr>sessions := s # sessions st\<rparr>"
| "apply_effect st (SetActiveSessionId i) = st\<lparr>activeSessionId := Some i\<rparr>"
| "apply_effect st (SetMessages ms) = st\<lparr>messages := ms\<rparr>"
| "apply_effect st (AppendMessage m) = st\<lparr>messages := messages st @ [m]\<rparr>"
| "apply_effect st (SetIsLoading b) = st\<lparr>isLoading := b\<rparr>"
| "apply_effect st (Fetch q) = st"
| "apply_effect st (Sleep d) = st"

definition run_effects :: "effect list \<Rightarrow> store \<Rightarrow> store" where
  "run_effects es st = foldl apply_effect st es"


section \<open>Session operations\<close>

definition newSession :: "entropy \<Rightarrow> ChatSession" where
  "newSession e =
     \<lparr>session_id = generatedId e, title = utf16 ''New Chat'', session_messages = [],
      createdAt = nowCreated e, updatedAt = nowUpdated e\<rparr>"

definition createNewSession_calls :: "entropy \<Rightarrow> effect list" where
  "createNewSession_calls e =
     [PrependSession (newSession e), SetActiveSessionId (session_id (newSession e)), SetMessages []]"

definition createNewSession :: "entropy \<Rightarrow> store \<Rightarrow> store" where
  "createNewSession e st = run_effects (createNewSession_calls e) st"

definition switchSession :: "jsstring \<Rightarrow> store \<Rightarrow> store" where
  "switchSession sessionId st =
     (case find (\<lambda>s. session_id s = sessionId) (sessions st) of
        Some session \<Rightarrow> st\<lparr>activeSessionId := Some sessionId, messages := session_messages session\<rparr>
      | None \<Rightarrow> st)"

text \<open>
  \<open>deleteSession\<close> passes an updater to \<open>setSessions\<close>, and the updater is not pure:
  besides returning the remaining sessions it calls \<open>setActiveSessionId\<close> and
  \<open>setMessages\<close>, or \<open>createNewSession()\<close>, which draws an identifier and itself calls
  \<open>setSessions((prev) => [newSession, ...prev])\<close>. \<open>deleteUpdater\<close> is that function: the
  list it returns and the calls it makes while it runs. \<open>active\<close> is the
  \<open>activeSessionId\<close> of the render the handler belongs to.
\<close>

definition deleteUpdater ::
  "entropy \<Rightarrow> jsstring \<Rightarrow> jsstring option \<Rightarrow> ChatSession list \<Rightarrow> ChatSession list \<times> effect list" where
  "deleteUpdater e sessionId active prevSessions =
     (let remainingSessions = filter (\<lambda>s. session_id s \<noteq> sessionId) prevSessions
      in if Some sessionId = active then
           (case remainingSessions of
              nextSession # rest \<Rightarrow>
                (remainingSessions,
                 [SetActiveSessionId (session_id nextSession),
                  SetMessages (session_messages nextSession)])
            | [] \<Rightarrow> (remainingSessions, createNewSession_calls e))
         else (remainingSessions, []))"

text \<open>
  React asks that an updater be pure and leaves open when, and how often, it runs one.
  What the calls made inside the updater come to depends on that:
  \<^item> \<open>AtRender\<close>: the updater runs once while the queue is processed for a render; the
    calls it makes are queued behind it and applied to the list it returns.
  \<^item> \<open>EagerInHandler\<close>: no update is pending, and the updater runs at once inside
    \<open>setSessions\<close>, before its own update is queued; the calls it makes are queued
    first, and the list the updater returned is stored after them and replaces theirs.
  \<^item> \<open>TwiceAtRender\<close>: a development build in strict mode runs the updater twice, on the
    same list; both runs make their calls, the second with a newly drawn identifier,
    and the list the second run returns is kept.
\<close>

datatype schedule = AtRender | EagerInHandler | TwiceAtRender

definition deleteSession :: "schedule \<Rightarrow> entropy \<Rightarrow> entropy \<Rightarrow> jsstring \<Rightarrow> store \<Rightarrow> store" where
  "deleteSession sched e e' sessionId st =
     (case sched of
        AtRender \<Rightarrow>
          (let (result, calls) = deleteUpdater e sessionId (activeSessionId st) (sessions st)
           in run_effects calls (st\<lparr>sessions := result\<rparr>))
      | EagerInHandler \<Rightarrow>
          (let (result, calls) = deleteUpdater e sessionId (activeSessionId st) (sessions st)
           in (run_effects calls st)\<lparr>sessions := result\<rparr>)
      | TwiceAtRender \<Rightarrow>
          (let (discarded, calls) = deleteUpdater e sessionId (activeSessionId st) (sessions st);
               (result, calls') = deleteUpdater e' sessionId (activeSessionId st) (sessions st)
           in run_effects (calls @ calls') (st\<lparr>sessions := result\<rparr>)))"


section \<open>Loading the persisted sessions\<close>

text \<open>
  \<open>Array.prototype.sort\<close> with a comparator: the sort is stable and works in place, on
  the array object it is called on, which it also returns. \<open>sort_insert cmp x ys\<close> puts
  \<open>x\<close>, which stood before every element of \<open>ys\<close>, in front of the first element it
  does not have to follow.
\<close>

fun sort_insert :: "('a \<Rightarrow> 'a \<Rightarrow> int) \<Rightarrow> 'a \<Rightarrow> 'a list \<Rightarrow> 'a list" where
  "sort_insert cmp x [] = [x]"
| "sort_insert cmp x (y # ys) = (if cmp x y \<le> 0 then x # y # ys else y # sort_insert cmp x ys)"

definition array_sort :: "('a \<Rightarrow> 'a \<Rightarrow> int) \<Rightarrow> 'a list \<Rightarrow> 'a list" where
  "array_sort cmp xs = foldr (sort_insert cmp) xs []"

text \<open>The comparator \<open>(a, b) => b.updatedAt - a.updatedAt\<close>.\<close>

definition byUpdatedAtDesc :: "ChatSession \<Rightarrow> ChatSession \<Rightarrow> int" where
  "byUpdatedAtDesc a b = updatedAt b - updatedAt a"

text \<open>
  Arrays are objects: a variable holds a reference, and \<open>setSessions(parsedSessions)\<close>
  hands the state cell the same reference that \<open>parsedSessions.sort(...)\<close> then sorts
  through. The heap maps a reference to the array's current elements.
\<close>

type_synonym ref = nat
type_synonym heap = "ref \<Rightarrow> ChatSession list"

text \<open>
  The mount effect. \<open>saved\<close> is what \<open>localStorage.getItem("chat-sessions")\<close> holds:
  \<open>None\<close> when it returns \<open>null\<close> (or the empty string, which is falsy as well),
  \<open>Some xs\<close> when the stored text parses to the session array \<open>xs\<close>, as the cast
  \<open>as ChatSession[]\<close> takes for granted. The state cell is read when the component
  renders next, after the effect has run to its end.
\<close>

definition loadSessions :: "entropy \<Rightarrow> ChatSession list option \<Rightarrow> store \<Rightarrow> store" where
  "loadSessions e saved st =
     (case saved of
        None \<Rightarrow> createNewSession e st
      | Some parsed \<Rightarrow>
          (let parsedSessions = (0::ref);
               h0 = ((\<lambda>r. [])(parsedSessions := parsed) :: heap);
               sessionsCell = parsedSessions
           in if length (h0 parsedSessions) > 0 then
                (let h1 = h0(parsedSessions := array_sort byUpdatedAtDesc (h0 parsedSessions));
                     mostRecent = hd (h1 parsedSessions)
                 in st\<lparr>sessions := h1 sessionsCell,
                       activeSessionId := Some (session_id mostRecent),
                       messages := session_messages mostRecent\<rparr>)
              else createNewSession e (st\<lparr>sessions := h0 sessionsCell\<rparr>)))"


section \<open>The query dispatcher\<close>

text \<open>
  What one call of \<open>fetch\<close> comes to: the promise rejects (no network), or it resolves
  to a response with its \<open>ok\<close> flag, status and text; \<open>body\<close> is the value
  \<open>response.json()\<close> resolves to, \<open>None\<close> when the text is not JSON and the promise
  rejects with a SyntaxError.
\<close>

record response =
  ok :: bool
  status :: nat
  body_text :: jsstring
  body :: "jsval option"

datatype fetch_result = Rejected | Resolved response

definition maxRetries :: nat where
  "maxRetries = 3"

definition fallbackSummary :: "jsstring \<Rightarrow> jsstring" where
  \<open>fallbackSummary query =
     utf16 ''I searched for "'' @ query @ utf16 ''" but couldn't generate a good summary.''\<close>

definition connectivityNotice :: jsstring where
  "connectivityNotice =
     utf16 ''I'm having trouble connecting to the search service. This might be due to rate limiting or a temporary issue. Please try again in a moment.''"

text \<open>The object literal \<open>safeData\<close>; each property read of \<open>data\<close> may throw.\<close>

definition arrayOrEmpty :: "jsval \<Rightarrow> jsval" where
  "arrayOrEmpty v = (if isArray v then v else Array [])"

definition safeData :: "jsval \<Rightarrow> jsstring \<Rightarrow> js_error + SafeData" where
  "safeData data query =
     bind_result (get_prop data (utf16 ''organic_results'')) (\<lambda>org.
     bind_result (get_prop data (utf16 ''knowledge_graph'')) (\<lambda>kg.
     bind_result (get_prop data (utf16 ''related_questions'')) (\<lambda>rq.
     bind_result (get_prop data (utf16 ''related_searches'')) (\<lambda>rs.
     bind_result (get_prop data (utf16 ''ai_response'')) (\<lambda>ai.
     bind_result (get_prop data (utf16 ''local_results'')) (\<lambda>loc.
       Inr \<lparr>organic_results = arrayOrEmpty org,
            knowledge_graph = js_or kg Null,
            related_questions = arrayOrEmpty rq,
            related_searches = arrayOrEmpty rs,
            ai_response = js_or ai (String (fallbackSummary query)),
            local_results = arrayOrEmpty loc\<rparr>))))))"

text \<open>
  \<open>encodeURIComponent\<close> throws a URIError on a string with a lone surrogate; the URL is
  built inside the \<open>try\<close> block, before \<open>fetch\<close> is called.
\<close>

definition isHighSurrogate :: "code_unit \<Rightarrow> bool" where
  "isHighSurrogate c = (0xD800 \<le> c \<and> c \<le> 0xDBFF)"

definition isLowSurrogate :: "code_unit \<Rightarrow> bool" where
  "isLowSurrogate c = (0xDC00 \<le> c \<and> c \<le> 0xDFFF)"

fun isWellFormed :: "jsstring \<Rightarrow> bool" where
  "isWellFormed [] = True"
| "isWellFormed [c] = (\<not> isHighSurrogate c \<and> \<not> isLowSurrogate c)"
| "isWellFormed (c # d # cs) =
     (if isHighSurrogate c then isLowSurrogate d \<and> isWellFormed cs
      else \<not> isLowSurrogate c \<and> isWellFormed (d # cs))"

text \<open>
  The body of the \<open>try\<close> block from the response on: the assistant message it appends,
  or the exception it throws.
\<close>

definition handleResponse :: "fetch_result \<Rightarrow> jsstring \<Rightarrow> js_error + ChatMessage" where
  "handleResponse r query =
     (case r of
        Rejected \<Rightarrow> Inl NetworkError
      | Resolved resp \<Rightarrow>
          if \<not> ok resp then Inl (HttpError (status resp) (body_text resp))
          else (case body resp of
                  None \<Rightarrow> Inl SyntaxError
                | Some data \<Rightarrow>
                    bind_result (safeData data query) (\<lambda>sd.
                      Inr \<lparr>role = Assistant, content = ai_response sd, results = Some sd\<rparr>)))"

definition noticeMessage :: ChatMessage where
  "noticeMessage = \<lparr>role = Assistant, content = String connectivityNotice, results = None\<rparr>"

text \<open>
  The \<open>try\<close> block of one turn of the loop: the calls it makes before it appends
  anything, and the assistant message it goes on to append or the exception that takes
  it to the \<open>catch\<close> block. \<open>fetch k\<close> is the outcome of the fetch made when
  \<open>retryCount\<close> is \<open>k\<close>.
\<close>

definition tryBlock ::
  "(nat \<Rightarrow> fetch_result) \<Rightarrow> jsstring \<Rightarrow> nat \<Rightarrow> effect list \<times> (js_error + ChatMessage)" where
  "tryBlock fetch query retryCount =
     (if \<not> isWellFormed query then ([], Inl URIError)
      else ([Fetch query], handleResponse (fetch retryCount) query))"

text \<open>
  One turn of the \<open>while\<close> loop, up to and including its \<open>finally\<close> block: the calls
  made, and the values of \<open>retryCount\<close> and \<open>success\<close> it leaves.
\<close>

definition attempt ::
  "(nat \<Rightarrow> fetch_result) \<Rightarrow> jsstring \<Rightarrow> nat \<Rightarrow> effect list \<times> nat \<times> bool" where
  "attempt fetch query retryCount =
     (let (calls, tried) = tryBlock fetch query retryCount;
          (calls', retryCount', success') =
            (case tried of
               Inr msg \<Rightarrow> (calls @ [AppendMessage msg], retryCount, True)
             | Inl err \<Rightarrow>
                 (let retryCount' = retryCount + 1
                  in if retryCount' \<ge> maxRetries
                     then (calls @ [AppendMessage noticeMessage], retryCount', False)
                     else (calls @ [Sleep (2 ^ retryCount' * 1000)], retryCount', False)))
      in (calls' @ (if success' \<or> retryCount' \<ge> maxRetries then [SetIsLoading False] else []),
          retryCount', success'))"

function retryLoop :: "(nat \<Rightarrow> fetch_result) \<Rightarrow> jsstring \<Rightarrow> nat \<Rightarrow> bool \<Rightarrow> effect list" where
  "retryLoop fetch query retryCount success =
     (if retryCount < maxRetries \<and> \<not> success then
        (case attempt fetch query retryCount of
           (calls, retryCount', success') \<Rightarrow> calls @ retryLoop fetch query retryCount' success')
      else [])"
  by pat_completeness auto
termination
proof (relation "measure (\<lambda>(fetch, query, retryCount, success).
                   (maxRetries - retryCount) + (if success then 0 else 1))")
qed (auto simp: attempt_def Let_def split: if_splits sum.splits prod.splits)

text \<open>
  \<open>handleSendMessage\<close>: \<open>st\<close> is the state of the render the handler belongs to, which
  its test \<open>sessions.length === 0\<close> reads.
\<close>

definition userMessage :: "jsstring \<Rightarrow> ChatMessage" where
  "userMessage query = \<lparr>role = User, content = String query, results = None\<rparr>"

definition handleSendMessage ::
  "(nat \<Rightarrow> fetch_result) \<Rightarrow> entropy \<Rightarrow> store \<Rightarrow> jsstring \<Rightarrow> effect list" where
  "handleSendMessage fetch e st query =
     (if length (sessions st) = 0 then createNewSession_calls e else [])
     @ [AppendMessage (userMessage query), SetIsLoading True]
     @ retryLoop fetch query 0 False"


section \<open>Reading a handler's calls\<close>

definition fetches :: "effect list \<Rightarrow> jsstring list" where
  "fetches es = concat (map (\<lambda>c. case c of Fetch q \<Rightarrow> [q] | _ \<Rightarrow> []) es)"

definition sleeps :: "effect list \<Rightarrow> nat list" where
  "sleeps es = concat (map (\<lambda>c. case c of Sleep d \<Rightarrow> [d] | _ \<Rightarrow> []) es)"

definition appended :: "effect list \<Rightarrow> ChatMessage list" where
  "appended es = concat (map (\<lambda>c. case c of AppendMessage m \<Rightarrow> [m] | _ \<Rightarrow> []) es)"

definition loadingWrites :: "effect list \<Rightarrow> bool list" where
  "loadingWrites es = concat (map (\<lambda>c. case c of SetIsLoading b \<Rightarrow> [b] | _ \<Rightarrow> []) es)"

definition isIO :: "effect \<Rightarrow> bool" where
  "isIO c = (case c of Fetch q \<Rightarrow> True | Sleep d \<Rightarrow> True | _ \<Rightarrow> False)"

text \<open>How many turns of the loop fail before one succeeds, three if none does.\<close>

definition failedAttempts :: "(nat \<Rightarrow> fetch_result) \<Rightarrow> jsstring \<Rightarrow> nat" where
  "failedAttempts fetch query =
     length (takeWhile (\<lambda>k. isl (snd (tryBlock fetch query k))) [0..<maxRetries])"

text \<open>
  The assistant message a dispatch settles with: the one built from the first response
  that gets through, or the notice.
\<close>

definition settledReply :: "(nat \<Rightarrow> fetch_result) \<Rightarrow> jsstring \<Rightarrow> ChatMessage" where
  "settledReply fetch query =
     (if failedAttempts fetch query < maxRetries
      then (case snd (tryBlock fetch query (failedAttempts fetch query)) of
              Inr m \<Rightarrow> m | Inl e \<Rightarrow> noticeMessage)
      else noticeMessage)"

text \<open>The calls one turn makes before its response is known.\<close>

definition urlCalls :: "jsstring \<Rightarrow> effect list" where
  "urlCalls query = (if isWellFormed query then [Fetch query] else [])"

text \<open>The value of \<open>data.name\<close> where the read does not throw.\<close>

definition field_of :: "jsval \<Rightarrow> string \<Rightarrow> jsval" where
  "field_of data name = (case get_prop data (utf16 name) of Inr v \<Rightarrow> v | Inl e \<Rightarrow> Undefined)"


section \<open>Sequences of session operations\<close>

text \<open>
  An operation comes with what it draws from its environment: the identifier and clock
  readings of the session it may create and, for \<open>deleteSession\<close>, the way React runs
  its updater and a second draw for a second run.
\<close>

datatype operation =
    CreateSession entropy
  | DeleteSession schedule jsstring entropy entropy

fun step :: "store \<Rightarrow> operation \<Rightarrow> store" where
  "step st (CreateSession e) = createNewSession e st"
| "step st (DeleteSession sched i e e') = deleteSession sched e e' i st"

definition run_ops :: "store \<Rightarrow> operation list \<Rightarrow> store" where
  "run_ops st ops = foldl step st ops"

definition session_ids :: "store \<Rightarrow> jsstring list" where
  "session_ids st = map session_id (sessions st)"

text \<open>
  The identifiers drawn by \<open>generateId\<close> are new: each \<open>createSession\<close> of the sequence
  draws one that no session of the list carries, and the two draws of a
  \<open>deleteSession\<close>, which are only used on a list left empty, differ.
\<close>

fun fresh_ids :: "store \<Rightarrow> operation list \<Rightarrow> bool" where
  "fresh_ids st [] = True"
| "fresh_ids st (CreateSession e # ops) =
     (generatedId e \<notin> set (session_ids st) \<and> fresh_ids (step st (CreateSession e)) ops)"
| "fresh_ids st (DeleteSession sched i e e' # ops) =
     (generatedId e \<noteq> generatedId e' \<and> fresh_ids (step st (DeleteSession sched i e e')) ops)"

text \<open>The active identifier is that of a session of the list.\<close>

definition activeListed :: "store \<Rightarrow> bool" where
  "activeListed st =
     (case activeSessionId st of None \<Rightarrow> False | Some a \<Rightarrow> a \<in> set (session_ids st))"

text \<open>How many sessions of the list the active identifier names.\<close>

definition activeCount :: "store \<Rightarrow> nat" where
  "activeCount st =
     length (filter (\<lambda>s. activeSessionId st = Some (session_id s)) (sessions st))"

text \<open>What the session operations keep true of the store.\<close>

definition store_inv :: "store \<Rightarrow> bool" where
  "store_inv st = (distinct (session_ids st) \<and> (sessions st = [] \<or> activeListed st))"

definition distinct_saved :: "ChatSession list option \<Rightarrow> bool" where
  "distinct_saved saved = (case saved of None \<Rightarrow> True | Some xs \<Rightarrow> distinct (map session_id xs))"


section \<open>Example inputs\<close>

definition exampleEntropy :: entropy where
  "exampleEntropy = \<lparr>generatedId = utf16 ''k3x9q2ab'', nowCreated = 1700000000000, nowUpdated = 1700000000000\<rparr>"

definition exampleSession :: ChatSession where
  "exampleSession = \<lparr>session_id = utf16 ''a1b2c3d4'', title = utf16 ''New Chat'', session_messages = [],
     createdAt = 1600000000000, updatedAt = 1600000000000\<rparr>"

definition exampleStore :: store where
  "exampleStore = \<lparr>sessions = [exampleSession], activeSessionId = Some (utf16 ''a1b2c3d4''),
     messages = [], isLoading = False\<rparr>"

definition otherEntropy :: entropy where
  "otherEntropy = \<lparr>generatedId = utf16 ''zz91kq07'', nowCreated = 1700000005000, nowUpdated = 1700000005000\<rparr>"

text \<open>A later draw that repeats the identifier of \<open>exampleEntropy\<close>.\<close>

definition repeatedEntropy :: entropy where
  "repeatedEntropy = \<lparr>generatedId = utf16 ''k3x9q2ab'', nowCreated = 1700000009000, nowUpdated = 1700000009000\<rparr>"

definition thirdEntropy :: entropy where
  "thirdEntropy = \<lparr>generatedId = utf16 ''m4p8w1xy'', nowCreated = 1700000007000, nowUpdated = 1700000007000\<rparr>"

text \<open>Two persisted sessions, the one updated last stored second.\<close>

definition olderSession :: ChatSession where
  "olderSession = \<lparr>session_id = utf16 ''aaaa1111'', title = utf16 ''first chat'',
     session_messages = [\<lparr>role = User, content = String (utf16 ''first chat''), results = None\<rparr>],
     createdAt = 1600000000000, updatedAt = 1600000000500\<rparr>"

definition newerSession :: ChatSession where
  "newerSession = \<lparr>session_id = utf16 ''bbbb2222'', title = utf16 ''second chat'',
     session_messages = [\<lparr>role = User, content = String (utf16 ''second chat''), results = None\<rparr>],
     createdAt = 1500000000000, updatedAt = 1700000000000\<rparr>"

text \<open>
  The response of the coffee scenario: organic results, one local result and no
  \<open>ai_response\<close>.
\<close>

definition cafeA :: jsval where
  "cafeA = Object
     [(utf16 ''title'', String (utf16 ''Cafe A'')),
      (utf16 ''address'', String (utf16 ''1 Main St'')),
      (utf16 ''rating'', Number (Finite (9 / 2))),
      (utf16 ''reviews'', Number (Finite 120)),
      (utf16 ''gps_coordinates'',
         Object [(utf16 ''latitude'', Number (Finite 1)), (utf16 ''longitude'', Number (Finite 2))])]"

definition organicHit :: jsval where
  "organicHit = Object
     [(utf16 ''title'', String (utf16 ''Best coffee'')),
      (utf16 ''link'', String (utf16 ''https://example.com'')),
      (utf16 ''snippet'', String (utf16 ''A list of cafes''))]"

definition coffeeBody :: jsval where
  "coffeeBody = Object
     [(utf16 ''organic_results'', Array [organicHit]),
      (utf16 ''local_results'', Array [cafeA])]"

definition coffeeResponse :: response where
  "coffeeResponse = \<lparr>ok = True, status = 200, body_text = [], body = Some coffeeBody\<rparr>"

definition nullResponse :: response where
  "nullResponse = \<lparr>ok = True, status = 200, body_text = utf16 ''null'', body = Some Null\<rparr>"

text \<open>An upstream that answers every fetch with status 200 and the body \<open>null\<close>.\<close>

definition nullFetch :: "nat \<Rightarrow> fetch_result" where
  "nullFetch k = Resolved nullResponse"




section \<open>The calls of a dispatch, in closed form\<close>

lemma fst_tryBlock: "fst (tryBlock f q k) = urlCalls q"
  by (simp add: tryBlock_def urlCalls_def)

lemma attempt_success:
  "snd (tryBlock f q rc) = Inr m \<Longrightarrow>
   attempt f q rc = (urlCalls q @ [AppendMessage m, SetIsLoading False], rc, True)"
  using fst_tryBlock[of f q rc]
  by (cases "tryBlock f q rc") (simp add: attempt_def)

lemma attempt_retry:
  "snd (tryBlock f q rc) = Inl err \<Longrightarrow> Suc rc < maxRetries \<Longrightarrow>
   attempt f q rc = (urlCalls q @ [Sleep (2 ^ Suc rc * 1000)], Suc rc, False)"
  using fst_tryBlock[of f q rc]
  by (cases "tryBlock f q rc") (simp add: attempt_def)

lemma attempt_exhausted:
  "snd (tryBlock f q rc) = Inl err \<Longrightarrow> maxRetries \<le> Suc rc \<Longrightarrow>
   attempt f q rc = (urlCalls q @ [AppendMessage noticeMessage, SetIsLoading False], Suc rc, False)"
  using fst_tryBlock[of f q rc]
  by (cases "tryBlock f q rc") (simp add: attempt_def)

lemma retryLoop_stop: "retryLoop f q rc True = []" "maxRetries \<le> rc \<Longrightarrow> retryLoop f q rc s = []"
  by simp_all

declare retryLoop.simps [simp del]

lemma retryLoop_success:
  "rc < maxRetries \<Longrightarrow> snd (tryBlock f q rc) = Inr m \<Longrightarrow>
   retryLoop f q rc False = urlCalls q @ [AppendMessage m, SetIsLoading False]"
  by (subst retryLoop.simps) (simp add: attempt_success retryLoop_stop)

lemma retryLoop_retry:
  "Suc rc < maxRetries \<Longrightarrow> snd (tryBlock f q rc) = Inl err \<Longrightarrow>
   retryLoop f q rc False = urlCalls q @ [Sleep (2 ^ Suc rc * 1000)] @ retryLoop f q (Suc rc) False"
  by (subst retryLoop.simps) (simp add: attempt_retry)

lemma retryLoop_exhausted:
  "Suc rc = maxRetries \<Longrightarrow> snd (tryBlock f q rc) = Inl err \<Longrightarrow>
   retryLoop f q rc False = urlCalls q @ [AppendMessage noticeMessage, SetIsLoading False]"
  by (subst retryLoop.simps) (simp add: attempt_exhausted retryLoop_stop)

lemma upt_maxRetries: "[0..<maxRetries] = [0, Suc 0, Suc (Suc 0)]"
  by (simp add: maxRetries_def upt_rec numeral_3_eq_3)

lemma retryLoop_closed:
  "retryLoop f q 0 False =
     concat (map (\<lambda>k. urlCalls q @ [Sleep (2 ^ Suc k * 1000)]) [0..<min (failedAttempts f q) 2])
     @ urlCalls q @ [AppendMessage (settledReply f q), SetIsLoading False]"
proof (cases "snd (tryBlock f q 0)")
  case (Inr m)
  then have n: "failedAttempts f q = 0"
    by (simp add: failedAttempts_def upt_maxRetries)
  with Inr show ?thesis
    by (simp add: retryLoop_success settledReply_def maxRetries_def)
next
  case a: (Inl e0)
  show ?thesis
  proof (cases "snd (tryBlock f q (Suc 0))")
    case (Inr m)
    with a have n: "failedAttempts f q = Suc 0"
      by (simp add: failedAttempts_def upt_maxRetries)
    with a Inr show ?thesis
      by (simp add: retryLoop_retry[OF _ a] retryLoop_success settledReply_def maxRetries_def)
  next
    case b: (Inl e1)
    show ?thesis
    proof (cases "snd (tryBlock f q (Suc (Suc 0)))")
      case (Inr m)
      with a b have n: "failedAttempts f q = Suc (Suc 0)"
        by (simp add: failedAttempts_def upt_maxRetries)
      have "[0..<min (Suc (Suc 0)) 2] = [0, Suc 0]" by (simp add: upt_rec)
      with a b Inr n show ?thesis
        by (simp add: retryLoop_retry[OF _ a] retryLoop_retry[OF _ b] retryLoop_success
            settledReply_def maxRetries_def)
    next
      case c: (Inl e2)
      with a b have n: "failedAttempts f q = Suc (Suc (Suc 0))"
        by (simp add: failedAttempts_def upt_maxRetries)
      have "[0..<min (Suc (Suc (Suc 0))) 2] = [0, Suc 0]" by (simp add: upt_rec)
      with a b c n show ?thesis
        by (simp add: retryLoop_retry[OF _ a] retryLoop_retry[OF _ b] retryLoop_exhausted[OF _ c]
            settledReply_def maxRetries_def)
    qed
  qed
qed


lemma failedAttempts_le: "failedAttempts f q \<le> maxRetries"
  unfolding failedAttempts_def
  by (rule order_trans[OF length_takeWhile_le]) simp

lemma failedAttempts_all:
  assumes "\<forall>k<maxRetries. isl (snd (tryBlock f q k))"
  shows "failedAttempts f q = maxRetries"
proof -
  have "takeWhile (\<lambda>k. isl (snd (tryBlock f q k))) [0..<maxRetries] = [0..<maxRetries]"
    using assms by simp
  then show ?thesis unfolding failedAttempts_def by (simp only: length_upt diff_zero)
qed

lemma obs_append [simp]:
  "fetches (a @ b) = fetches a @ fetches b"
  "sleeps (a @ b) = sleeps a @ sleeps b"
  "appended (a @ b) = appended a @ appended b"
  "loadingWrites (a @ b) = loadingWrites a @ loadingWrites b"
  by (simp_all add: fetches_def sleeps_def appended_def loadingWrites_def)

lemma obs_Nil [simp]:
  "fetches [] = []" "sleeps [] = []" "appended [] = []" "loadingWrites [] = []"
  by (simp_all add: fetches_def sleeps_def appended_def loadingWrites_def)

lemma obs_Cons [simp]:
  "fetches (c # es) = (case c of Fetch q \<Rightarrow> [q] | _ \<Rightarrow> []) @ fetches es"
  "sleeps (c # es) = (case c of Sleep d \<Rightarrow> [d] | _ \<Rightarrow> []) @ sleeps es"
  "appended (c # es) = (case c of AppendMessage m \<Rightarrow> [m] | _ \<Rightarrow> []) @ appended es"
  "loadingWrites (c # es) = (case c of SetIsLoading b \<Rightarrow> [b] | _ \<Rightarrow> []) @ loadingWrites es"
  by (simp_all add: fetches_def sleeps_def appended_def loadingWrites_def)

lemma run_effects_append: "run_effects (a @ b) st = run_effects b (run_effects a st)"
  by (simp add: run_effects_def)

lemma run_effects_Cons: "run_effects (c # es) st = run_effects es (apply_effect st c)"
  by (simp add: run_effects_def)

lemma run_effects_Nil: "run_effects [] st = st"
  by (simp add: run_effects_def)

lemma min_cases3:
  "n \<le> 3 \<Longrightarrow> n = 0 \<or> n = Suc 0 \<or> n = Suc (Suc 0) \<or> n = Suc (Suc (Suc 0))"
  by arith

lemma backoff_cases:
  assumes "n \<le> maxRetries"
  shows "[0..<min n 2] = (if n = 0 then [] else if n = Suc 0 then [0] else [0, Suc 0])"
  using assms by (auto simp: maxRetries_def upt_rec min_def)

lemma backoff_list:
  assumes "n \<le> maxRetries"
  shows "concat (map (\<lambda>k. urlCalls q @ [Sleep (2 ^ Suc k * 1000)]) [0..<min n 2]) =
     (if n = 0 then [] else if n = Suc 0 then urlCalls q @ [Sleep 2000]
      else urlCalls q @ [Sleep 2000] @ urlCalls q @ [Sleep 4000])"
  by (simp add: backoff_cases[OF assms])

lemma handleSendMessage_closed:
  "handleSendMessage f e st q =
     (if length (sessions st) = 0 then createNewSession_calls e else [])
     @ [AppendMessage (userMessage q), SetIsLoading True]
     @ (if failedAttempts f q = 0 then []
        else if failedAttempts f q = Suc 0 then urlCalls q @ [Sleep 2000]
        else urlCalls q @ [Sleep 2000] @ urlCalls q @ [Sleep 4000])
     @ urlCalls q @ [AppendMessage (settledReply f q), SetIsLoading False]"
  unfolding handleSendMessage_def retryLoop_closed backoff_list[OF failedAttempts_le]
  by simp

lemma settledReply_exhausted:
  "failedAttempts f q = maxRetries \<Longrightarrow> settledReply f q = noticeMessage"
  by (simp add: settledReply_def)

lemma handleResponse_role: "handleResponse r q = Inr m \<Longrightarrow> role m = Assistant"
  by (auto simp: handleResponse_def bind_result_def split: fetch_result.splits if_splits option.splits sum.splits)

lemma tryBlock_role: "snd (tryBlock f q k) = Inr m \<Longrightarrow> role m = Assistant"
  by (auto simp: tryBlock_def dest: handleResponse_role split: if_splits)

lemma settledReply_role: "role (settledReply f q) = Assistant"
  by (auto simp: settledReply_def noticeMessage_def dest: tryBlock_role split: sum.splits)

lemma urlCalls_obs [simp]:
  "sleeps (urlCalls q) = []" "appended (urlCalls q) = []" "loadingWrites (urlCalls q) = []"
  "fetches (urlCalls q) = (if isWellFormed q then [q] else [])"
  by (simp_all add: urlCalls_def)

lemma create_calls_obs [simp]:
  "sleeps (createNewSession_calls e) = []" "appended (createNewSession_calls e) = []"
  "loadingWrites (createNewSession_calls e) = []" "fetches (createNewSession_calls e) = []"
  by (simp_all add: createNewSession_calls_def)

lemma wellFormed_example: "isWellFormed (utf16 ''best coffee near me'')"
  by (simp add: utf16_def isHighSurrogate_def isLowSurrogate_def)


section \<open>Title derivation\<close>

text \<open>
  Claim C6. When the first user message of a list has a string content of at most 30
  code units, \<open>getChatTitle\<close> returns that content unchanged; when the content is
  longer than 30 code units, it returns the first 30 followed by \<open>...\<close>.
\<close>

theorem getChatTitle_length:
  assumes "find (\<lambda>m. role m = User) msgs = Some m" and "content m = String c"
  shows "(length c \<le> 30 \<longrightarrow> getChatTitle numberToString msgs = Inr (String c)) \<and>
         (length c > 30 \<longrightarrow>
            getChatTitle numberToString msgs = Inr (String (take 30 c @ utf16 ''...'')))"
  using assms by (simp add: getChatTitle_def Let_def)

theorem getChatTitle_length_witness:
  "getChatTitle (\<lambda>x. [])
     [\<lparr>role = Assistant, content = String (utf16 ''hi''), results = None\<rparr>,
      \<lparr>role = User, content = String (utf16 ''best coffee near me''), results = None\<rparr>]
     = Inr (String (utf16 ''best coffee near me'')) \<and>
   getChatTitle (\<lambda>x. [])
     [\<lparr>role = User, content = String (utf16 ''what is the best coffee shop in town''), results = None\<rparr>]
     = Inr (String (utf16 ''what is the best coffee shop i...''))"
proof -
  let ?a = "\<lparr>role = Assistant, content = String (utf16 ''hi''), results = None\<rparr>"
  let ?u = "\<lparr>role = User, content = String (utf16 ''best coffee near me''), results = None\<rparr>"
  let ?v = "\<lparr>role = User, content = String (utf16 ''what is the best coffee shop in town''), results = None\<rparr>"
  have 1: "find (\<lambda>m. role m = User) [?a, ?u] = Some ?u" by simp
  have 2: "find (\<lambda>m. role m = User) [?v] = Some ?v" by simp
  from getChatTitle_length[OF 1, of "utf16 ''best coffee near me''" "\<lambda>x. []"]
       getChatTitle_length[OF 2, of "utf16 ''what is the best coffee shop in town''" "\<lambda>x. []"]
  show ?thesis by (simp add: utf16_def)
qed

text \<open>
  Beside the claim: a user message whose content is an array gets the sliced array as
  its title when it has at most 30 elements, and otherwise the string its first 30
  elements convert to, followed by \<open>...\<close>.
\<close>

lemma getChatTitle_array:
  assumes "find (\<lambda>m. role m = User) msgs = Some m" and "content m = Array xs"
  shows "(length xs \<le> 30 \<longrightarrow> getChatTitle numberToString msgs = Inr (Array xs)) \<and>
         (length xs > 30 \<longrightarrow> getChatTitle numberToString msgs =
            bind_result (joinStr numberToString (take 30 xs)) (\<lambda>s. Inr (String (s @ utf16 ''...''))))"
  using assms by (simp add: getChatTitle_def Let_def)


section \<open>Retry, backoff and the loading flag\<close>

text \<open>
  Claim C1. A dispatch calls \<open>fetch\<close> at most 3 times. Its fetches and timer waits
  alternate: after failed attempt number \<open>a\<close>, for \<open>a\<close> = 1 and 2, it waits
  \<open>2 ^ a * 1000\<close> milliseconds and then tries again. When all three attempts fail the
  waits are 2000 and 4000 milliseconds, the only assistant message appended is the
  connectivity notice, and the loading flag is false once the calls have been applied.
\<close>

theorem sendMessage_retry_backoff:
  "length (fetches (handleSendMessage fetch e st q)) \<le> 3 \<and>
   filter isIO (handleSendMessage fetch e st q) =
     concat (map (\<lambda>a. urlCalls q @ [Sleep (2 ^ a * 1000)]) [1..<Suc (min (failedAttempts fetch q) 2)])
     @ urlCalls q \<and>
   ((\<forall>k<3. isl (snd (tryBlock fetch q k))) \<longrightarrow>
      sleeps (handleSendMessage fetch e st q) = [2000, 4000] \<and>
      (isWellFormed q \<longrightarrow> fetches (handleSendMessage fetch e st q) = [q, q, q]) \<and>
      filter (\<lambda>m. role m = Assistant) (appended (handleSendMessage fetch e st q)) = [noticeMessage] \<and>
      content noticeMessage = String connectivityNotice \<and>
      isLoading (run_effects (handleSendMessage fetch e st q) st) = False)"
proof -
  note n = failedAttempts_le[of fetch q]
  have bc: "[0..<min (failedAttempts fetch q) 2] =
      (if failedAttempts fetch q = 0 then [] else if failedAttempts fetch q = Suc 0 then [0] else [0, Suc 0])"
    by (rule backoff_cases[OF n])
  have bc': "[1..<Suc (min (failedAttempts fetch q) 2)] =
      (if failedAttempts fetch q = 0 then [] else if failedAttempts fetch q = Suc 0 then [1] else [1, 2])"
    using n by (auto simp: maxRetries_def upt_rec min_def)
  have 1: "length (fetches (handleSendMessage fetch e st q)) \<le> 3"
    by (simp add: handleSendMessage_closed userMessage_def)
  have 2: "filter isIO (handleSendMessage fetch e st q) =
     concat (map (\<lambda>a. urlCalls q @ [Sleep (2 ^ a * 1000)]) [1..<Suc (min (failedAttempts fetch q) 2)])
     @ urlCalls q"
  proof -
    have "failedAttempts fetch q = 0 \<or> failedAttempts fetch q = Suc 0
          \<or> failedAttempts fetch q = Suc (Suc 0) \<or> failedAttempts fetch q = Suc (Suc (Suc 0))"
      using n by (intro min_cases3) (simp add: maxRetries_def)
    then show ?thesis
      by (elim disjE)
         (simp_all add: handleSendMessage_closed isIO_def urlCalls_def createNewSession_calls_def
            upt_rec numeral_2_eq_2)
  qed
  have 3: "sleeps (handleSendMessage fetch e st q) = [2000, 4000] \<and>
      (isWellFormed q \<longrightarrow> fetches (handleSendMessage fetch e st q) = [q, q, q]) \<and>
      filter (\<lambda>m. role m = Assistant) (appended (handleSendMessage fetch e st q)) = [noticeMessage] \<and>
      content noticeMessage = String connectivityNotice \<and>
      isLoading (run_effects (handleSendMessage fetch e st q) st) = False"
    if a: "\<forall>k<3. isl (snd (tryBlock fetch q k))"
  proof -
    from a have m: "failedAttempts fetch q = 3"
      using failedAttempts_all[of fetch q] by (simp add: maxRetries_def)
    then have r: "settledReply fetch q = noticeMessage"
      by (simp add: settledReply_exhausted maxRetries_def)
    have l: "isLoading (run_effects (handleSendMessage fetch e st q) st) = False"
      by (simp add: handleSendMessage_closed run_effects_def)
    show ?thesis
      using l by (simp add: handleSendMessage_closed m r userMessage_def noticeMessage_def)
  qed
  from 1 2 3 show ?thesis by blast
qed

theorem sendMessage_retry_backoff_witness:
  "isl (snd (tryBlock (\<lambda>k. Rejected) (utf16 ''best coffee near me'') 0)) \<and>
   isl (snd (tryBlock (\<lambda>k. Rejected) (utf16 ''best coffee near me'') 1)) \<and>
   isl (snd (tryBlock (\<lambda>k. Rejected) (utf16 ''best coffee near me'') 2)) \<and>
   filter isIO (handleSendMessage (\<lambda>k. Rejected) exampleEntropy exampleStore (utf16 ''best coffee near me''))
     = [Fetch (utf16 ''best coffee near me''), Sleep 2000,
        Fetch (utf16 ''best coffee near me''), Sleep 4000,
        Fetch (utf16 ''best coffee near me'')] \<and>
   filter (\<lambda>m. role m = Assistant)
     (appended (handleSendMessage (\<lambda>k. Rejected) exampleEntropy exampleStore (utf16 ''best coffee near me'')))
     = [noticeMessage] \<and>
   isLoading (run_effects
     (handleSendMessage (\<lambda>k. Rejected) exampleEntropy exampleStore (utf16 ''best coffee near me''))
     exampleStore) = False"
proof -
  have h: "\<forall>k<3. isl (snd (tryBlock (\<lambda>k. Rejected) (utf16 ''best coffee near me'') k))"
    by (simp add: tryBlock_def handleResponse_def wellFormed_example)
  then have n: "failedAttempts (\<lambda>k. Rejected) (utf16 ''best coffee near me'') = 3"
    using failedAttempts_all[of "\<lambda>k. Rejected" "utf16 ''best coffee near me''"]
    by (simp add: maxRetries_def)
  have u: "urlCalls (utf16 ''best coffee near me'') = [Fetch (utf16 ''best coffee near me'')]"
    by (simp add: urlCalls_def wellFormed_example)
  have l: "[1..<Suc (min (3::nat) 2)] = [1, 2]"
    by (simp add: upt_rec)
  have h': "isl (snd (tryBlock (\<lambda>k. Rejected) (utf16 ''best coffee near me'') k))" for k
    by (simp add: tryBlock_def handleResponse_def wellFormed_example)
  show ?thesis
    using h h' sendMessage_retry_backoff[of "\<lambda>k. Rejected" exampleEntropy exampleStore
        "utf16 ''best coffee near me''"]
    unfolding n u l by simp
qed


text \<open>
  Claim C2. A dispatch appends exactly two messages: first the user message
  \<open>{role: "user", content: query}\<close>, before any fetch, and then one assistant message,
  the reply built from the first response that gets through or else the notice.
\<close>

theorem sendMessage_appends_user_then_one_reply:
  "appended (handleSendMessage fetch e st q) = [userMessage q, settledReply fetch q] \<and>
   userMessage q = \<lparr>role = User, content = String q, results = None\<rparr> \<and>
   role (settledReply fetch q) = Assistant \<and>
   fetches (takeWhile (\<lambda>c. c \<noteq> AppendMessage (userMessage q)) (handleSendMessage fetch e st q)) = [] \<and>
   messages (run_effects (handleSendMessage fetch e st q) st) =
     (if sessions st = [] then [] else messages st) @ [userMessage q, settledReply fetch q]"
proof -
  have 1: "appended (handleSendMessage fetch e st q) = [userMessage q, settledReply fetch q]"
    by (simp add: handleSendMessage_closed)
  have 2: "fetches (takeWhile (\<lambda>c. c \<noteq> AppendMessage (userMessage q)) (handleSendMessage fetch e st q)) = []"
    by (simp add: handleSendMessage_closed createNewSession_calls_def)
  have 3: "messages (run_effects (handleSendMessage fetch e st q) st) =
     (if sessions st = [] then [] else messages st) @ [userMessage q, settledReply fetch q]"
    by (simp add: handleSendMessage_closed createNewSession_calls_def run_effects_def urlCalls_def)
  from 1 2 3 show ?thesis
    by (simp add: settledReply_role userMessage_def)
qed


theorem sendMessage_appends_user_then_one_reply_witness:
  "appended (handleSendMessage (\<lambda>k. Rejected) exampleEntropy exampleStore (utf16 ''best coffee near me''))
     = [\<lparr>role = User, content = String (utf16 ''best coffee near me''), results = None\<rparr>, noticeMessage] \<and>
   messages (run_effects
     (handleSendMessage (\<lambda>k. Rejected) exampleEntropy exampleStore (utf16 ''best coffee near me''))
     exampleStore)
     = [\<lparr>role = User, content = String (utf16 ''best coffee near me''), results = None\<rparr>, noticeMessage]"
proof -
  have "\<forall>k<maxRetries. isl (snd (tryBlock (\<lambda>k. Rejected) (utf16 ''best coffee near me'') k))"
    by (simp add: tryBlock_def handleResponse_def)
  then have "settledReply (\<lambda>k. Rejected) (utf16 ''best coffee near me'') = noticeMessage"
    by (simp add: failedAttempts_all settledReply_exhausted)
  then show ?thesis
    using sendMessage_appends_user_then_one_reply[of "\<lambda>k. Rejected" exampleEntropy exampleStore
        "utf16 ''best coffee near me''"]
    by (simp add: exampleStore_def)
qed

text \<open>
  Claim C3. A dispatch writes the loading flag twice: true before its first fetch or
  wait, and false once, as its last call, right after the settling assistant message
  is appended. The loop always ends, and the flag is false when it has.
\<close>

theorem sendMessage_loading_cleared_once:
  "loadingWrites (handleSendMessage fetch e st q) = [True, False] \<and>
   loadingWrites (takeWhile (\<lambda>c. \<not> isIO c) (handleSendMessage fetch e st q)) = [True] \<and>
   take 2 (rev (handleSendMessage fetch e st q)) =
     [SetIsLoading False, AppendMessage (settledReply fetch q)] \<and>
   isLoading (run_effects (handleSendMessage fetch e st q) st) = False"
proof -
  have 1: "loadingWrites (handleSendMessage fetch e st q) = [True, False]"
    by (simp add: handleSendMessage_closed)
  have w: "\<not> isWellFormed q \<Longrightarrow> failedAttempts fetch q \<noteq> 0"
    by (simp add: failedAttempts_def upt_maxRetries tryBlock_def)
  have 2: "loadingWrites (takeWhile (\<lambda>c. \<not> isIO c) (handleSendMessage fetch e st q)) = [True]"
    using w by (simp add: handleSendMessage_closed createNewSession_calls_def isIO_def urlCalls_def)
  have 3: "take 2 (rev (handleSendMessage fetch e st q)) =
     [SetIsLoading False, AppendMessage (settledReply fetch q)]"
    by (simp add: handleSendMessage_closed)
  have 4: "isLoading (run_effects (handleSendMessage fetch e st q) st) = False"
    by (simp add: handleSendMessage_closed run_effects_def)
  from 1 2 3 4 show ?thesis by simp
qed


theorem sendMessage_loading_cleared_once_witness:
  "loadingWrites (handleSendMessage (\<lambda>k. Rejected) exampleEntropy exampleStore (utf16 ''best coffee near me''))
     = [True, False] \<and>
   isLoading (run_effects
     (handleSendMessage (\<lambda>k. Rejected) exampleEntropy exampleStore (utf16 ''best coffee near me''))
     exampleStore) = False"
  using sendMessage_loading_cleared_once[of "\<lambda>k. Rejected" exampleEntropy exampleStore
      "utf16 ''best coffee near me''"]
  by simp


section \<open>Normalising a response\<close>

lemma get_prop_field_of:
  "data \<noteq> Null \<Longrightarrow> data \<noteq> Undefined \<Longrightarrow> get_prop data (utf16 name) = Inr (field_of data name)"
  by (cases data) (auto simp: field_of_def split: option.splits)


lemma safeData_defined:
  assumes "data \<noteq> Null" "data \<noteq> Undefined"
  shows "safeData data q =
     Inr \<lparr>organic_results = arrayOrEmpty (field_of data ''organic_results''),
          knowledge_graph = js_or (field_of data ''knowledge_graph'') Null,
          related_questions = arrayOrEmpty (field_of data ''related_questions''),
          related_searches = arrayOrEmpty (field_of data ''related_searches''),
          ai_response = js_or (field_of data ''ai_response'') (String (fallbackSummary q)),
          local_results = arrayOrEmpty (field_of data ''local_results'')\<rparr>"
  by (simp add: safeData_def bind_result_def get_prop_field_of[OF assms])

lemma handleResponse_defined:
  assumes "ok resp" "body resp = Some data" "data \<noteq> Null" "data \<noteq> Undefined"
  shows "\<exists>sd. safeData data q = Inr sd \<and>
     handleResponse (Resolved resp) q = Inr \<lparr>role = Assistant, content = ai_response sd, results = Some sd\<rparr>"
  using assms by (simp add: handleResponse_def bind_result_def safeData_defined)

lemma arrayOrEmpty_isArray: "isArray (arrayOrEmpty v)" "arrayOrEmpty v \<noteq> Undefined"
  by (auto simp: arrayOrEmpty_def)

lemma coffee_fields:
  "field_of coffeeBody ''organic_results'' = Array [organicHit]"
  "field_of coffeeBody ''local_results'' = Array [cafeA]"
  "field_of coffeeBody ''related_questions'' = Undefined"
  "field_of coffeeBody ''related_searches'' = Undefined"
  "field_of coffeeBody ''ai_response'' = Undefined"
  "field_of coffeeBody ''knowledge_graph'' = Undefined"
  by (simp_all add: field_of_def coffeeBody_def utf16_def)


lemma fallback_coffee:
  \<open>fallbackSummary (utf16 ''best coffee near me'') =
     utf16 ''I searched for "best coffee near me" but couldn't generate a good summary.''\<close>
  by (simp add: fallbackSummary_def utf16_def)

text \<open>
  Claim C4, as stated, fails: a response with status 200 whose body is the JSON text
  \<open>null\<close> makes \<open>data.organic_results\<close> throw a TypeError, which the \<open>catch\<close> block
  counts as a failed attempt; three such responses end in the connectivity notice.
\<close>

theorem null_body_throws:
  "handleResponse (Resolved nullResponse) (utf16 ''best coffee near me'') = Inl TypeError \<and>
   settledReply nullFetch (utf16 ''best coffee near me'') = noticeMessage"
proof -
  have t: "handleResponse (Resolved nullResponse) (utf16 ''best coffee near me'') = Inl TypeError"
    by (simp add: handleResponse_def nullResponse_def safeData_def bind_result_def)
  then have "\<forall>k<maxRetries. isl (snd (tryBlock nullFetch (utf16 ''best coffee near me'') k))"
    by (simp add: tryBlock_def nullFetch_def)
  then have "settledReply nullFetch (utf16 ''best coffee near me'') = noticeMessage"
    by (simp add: failedAttempts_all settledReply_exhausted)
  with t show ?thesis by simp
qed

text \<open>
  Claim C4, amended. For every response with a success status whose body parses to a
  value other than \<open>null\<close>, the attempt does not throw; it appends an assistant message
  whose \<open>results\<close> is the normalised object, in which each of \<open>organic_results\<close>,
  \<open>related_questions\<close>, \<open>related_searches\<close> and \<open>local_results\<close> is the value of the
  response when that is an array and the empty array otherwise, and so is never
  \<open>undefined\<close>. (\<open>Undefined\<close> is not a value \<open>JSON.parse\<close> returns.)
\<close>

theorem array_fields_normalized:
  assumes "ok resp" and "body resp = Some data" and "data \<noteq> Null" and "data \<noteq> Undefined"
  shows "\<exists>sd. handleResponse (Resolved resp) q =
             Inr \<lparr>role = Assistant, content = ai_response sd, results = Some sd\<rparr> \<and>
     organic_results sd =
       (if isArray (field_of data ''organic_results'') then field_of data ''organic_results'' else Array []) \<and>
     related_questions sd =
       (if isArray (field_of data ''related_questions'') then field_of data ''related_questions'' else Array []) \<and>
     related_searches sd =
       (if isArray (field_of data ''related_searches'') then field_of data ''related_searches'' else Array []) \<and>
     local_results sd =
       (if isArray (field_of data ''local_results'') then field_of data ''local_results'' else Array []) \<and>
     isArray (organic_results sd) \<and> isArray (related_questions sd) \<and>
     isArray (related_searches sd) \<and> isArray (local_results sd) \<and>
     organic_results sd \<noteq> Undefined \<and> related_questions sd \<noteq> Undefined \<and>
     related_searches sd \<noteq> Undefined \<and> local_results sd \<noteq> Undefined"
proof -
  let ?sd = "\<lparr>organic_results = arrayOrEmpty (field_of data ''organic_results''),
          knowledge_graph = js_or (field_of data ''knowledge_graph'') Null,
          related_questions = arrayOrEmpty (field_of data ''related_questions''),
          related_searches = arrayOrEmpty (field_of data ''related_searches''),
          ai_response = js_or (field_of data ''ai_response'') (String (fallbackSummary q)),
          local_results = arrayOrEmpty (field_of data ''local_results'')\<rparr>"
  have r: "handleResponse (Resolved resp) q =
      Inr \<lparr>role = Assistant, content = ai_response ?sd, results = Some ?sd\<rparr>"
    using assms by (simp add: handleResponse_def bind_result_def safeData_defined)
  have v: "organic_results ?sd =
       (if isArray (field_of data ''organic_results'') then field_of data ''organic_results'' else Array [])"
    "related_questions ?sd =
       (if isArray (field_of data ''related_questions'') then field_of data ''related_questions'' else Array [])"
    "related_searches ?sd =
       (if isArray (field_of data ''related_searches'') then field_of data ''related_searches'' else Array [])"
    "local_results ?sd =
       (if isArray (field_of data ''local_results'') then field_of data ''local_results'' else Array [])"
    by (simp_all add: arrayOrEmpty_def)
  have a: "isArray (organic_results ?sd)" "isArray (related_questions ?sd)"
    "isArray (related_searches ?sd)" "isArray (local_results ?sd)"
    "organic_results ?sd \<noteq> Undefined" "related_questions ?sd \<noteq> Undefined"
    "related_searches ?sd \<noteq> Undefined" "local_results ?sd \<noteq> Undefined"
    by (simp_all add: arrayOrEmpty_isArray)
  from r v a show ?thesis by blast
qed

theorem array_fields_normalized_witness:
  "ok coffeeResponse \<and> body coffeeResponse = Some coffeeBody \<and> coffeeBody \<noteq> Null \<and>
   coffeeBody \<noteq> Undefined \<and>
   (\<exists>sd. handleResponse (Resolved coffeeResponse) (utf16 ''best coffee near me'') =
             Inr \<lparr>role = Assistant, content = ai_response sd, results = Some sd\<rparr> \<and>
      organic_results sd = Array [organicHit] \<and> related_questions sd = Array [] \<and>
      related_searches sd = Array [] \<and> local_results sd = Array [cafeA])"
proof -
  have h: "ok coffeeResponse" "body coffeeResponse = Some coffeeBody" "coffeeBody \<noteq> Null"
    "coffeeBody \<noteq> Undefined"
    by (simp_all add: coffeeResponse_def coffeeBody_def)
  from array_fields_normalized[OF h, of "utf16 ''best coffee near me''"]
  obtain sd where "handleResponse (Resolved coffeeResponse) (utf16 ''best coffee near me'') =
             Inr \<lparr>role = Assistant, content = ai_response sd, results = Some sd\<rparr>"
    and "organic_results sd = Array [organicHit]" and "related_questions sd = Array []"
    and "related_searches sd = Array []" and "local_results sd = Array [cafeA]"
    by (auto simp: coffee_fields)
  with h show ?thesis by blast
qed








section \<open>Session operations and the store invariant\<close>

lemma createNewSession_store:
  "createNewSession e st =
     st\<lparr>sessions := newSession e # sessions st, activeSessionId := Some (generatedId e), messages := []\<rparr>"
  by (simp add: createNewSession_def createNewSession_calls_def run_effects_def newSession_def)

lemma mset_sort_insert: "mset (sort_insert cmp x ys) = add_mset x (mset ys)"
  by (induction ys) auto

lemma set_sort_insert: "set (sort_insert cmp x ys) = insert x (set ys)"
  by (induction ys) auto

lemma mset_array_sort: "mset (array_sort cmp xs) = mset xs"
  by (induction xs) (simp_all add: array_sort_def mset_sort_insert)

lemma set_array_sort: "set (array_sort cmp xs) = set xs"
  using mset_array_sort[of cmp xs] by (metis set_mset_mset)

lemma array_sort_Nil_iff: "array_sort cmp xs = [] \<longleftrightarrow> xs = []"
  using mset_array_sort[of cmp xs] by (metis mset_zero_iff)

lemma distinct_ids_array_sort:
  "distinct (map session_id (array_sort cmp xs)) = distinct (map session_id xs)"
proof -
  have "mset (map session_id (array_sort cmp xs)) = mset (map session_id xs)"
    by (simp add: mset_array_sort)
  then show ?thesis by (rule mset_eq_imp_distinct_iff)
qed

lemma hd_sort_insert_greatest:
  assumes "ys \<noteq> [] \<Longrightarrow> \<forall>y\<in>set ys. updatedAt y \<le> updatedAt (hd ys)"
  shows "\<forall>y\<in>set (sort_insert byUpdatedAtDesc x ys). 
           updatedAt y \<le> updatedAt (hd (sort_insert byUpdatedAtDesc x ys))"
proof (cases ys)
  case Nil
  then show ?thesis by simp
next
  case (Cons y ys')
  with assms have "\<forall>z\<in>set ys. updatedAt z \<le> updatedAt y" by simp
  with Cons show ?thesis
    by (auto simp: byUpdatedAtDesc_def set_sort_insert)
qed


lemma hd_array_sort_greatest:
  "\<forall>y\<in>set (array_sort byUpdatedAtDesc xs).
      updatedAt y \<le> updatedAt (hd (array_sort byUpdatedAtDesc xs))"
proof (induction xs)
  case Nil
  then show ?case by (simp add: array_sort_def)
next
  case (Cons x xs)
  have "array_sort byUpdatedAtDesc (x # xs) = sort_insert byUpdatedAtDesc x (array_sort byUpdatedAtDesc xs)"
    by (simp add: array_sort_def)
  with Cons hd_sort_insert_greatest[of "array_sort byUpdatedAtDesc xs" x]
  show ?case by simp
qed

lemma loadSessions_None: "loadSessions e None st = createNewSession e st"
  by (simp add: loadSessions_def)

lemma loadSessions_empty: "loadSessions e (Some []) st = createNewSession e (st\<lparr>sessions := []\<rparr>)"
  by (simp add: loadSessions_def)

lemma loadSessions_Some:
  "xs \<noteq> [] \<Longrightarrow> loadSessions e (Some xs) st =
     st\<lparr>sessions := array_sort byUpdatedAtDesc xs,
        activeSessionId := Some (session_id (hd (array_sort byUpdatedAtDesc xs))),
        messages := session_messages (hd (array_sort byUpdatedAtDesc xs))\<rparr>"
  by (simp add: loadSessions_def Let_def)

lemma count_distinct_ids:
  "distinct (map session_id xs) \<Longrightarrow> a \<in> session_id ` set xs \<Longrightarrow>
   length (filter (\<lambda>s. Some a = Some (session_id s)) xs) = 1"
proof (induction xs)
  case Nil
  then show ?case by simp
next
  case (Cons x xs)
  show ?case
  proof (cases "session_id x = a")
    case True
    from Cons.prems(1) have "session_id x \<notin> session_id ` set xs" by simp
    with True have "\<forall>s\<in>set xs. session_id s \<noteq> a" by blast
    then have "filter (\<lambda>s. Some a = Some (session_id s)) xs = []"
      by (auto simp: filter_empty_conv)
    with True show ?thesis by simp
  next
    case False
    with Cons show ?thesis by auto
  qed
qed

lemma sorted_example:
  "array_sort byUpdatedAtDesc [olderSession, newerSession] = [newerSession, olderSession]"
  by (simp add: array_sort_def byUpdatedAtDesc_def olderSession_def newerSession_def)

lemma load_example:
  "loadSessions exampleEntropy (Some [olderSession, newerSession]) initialStore =
     \<lparr>sessions = [newerSession, olderSession], activeSessionId = Some (utf16 ''bbbb2222''),
      messages = session_messages newerSession, isLoading = False\<rparr>"
  by (simp add: loadSessions_Some sorted_example initialStore_def) (simp add: newerSession_def)

lemma loadSessions_most_recent:
  assumes "xs \<noteq> []"
  shows "\<exists>s\<in>set xs. activeSessionId (loadSessions e (Some xs) st) = Some (session_id s) \<and>
           messages (loadSessions e (Some xs) st) = session_messages s \<and>
           (\<forall>y\<in>set xs. updatedAt y \<le> updatedAt s)"
proof -
  let ?m = "hd (array_sort byUpdatedAtDesc xs)"
  from assms have "array_sort byUpdatedAtDesc xs \<noteq> []"
    by (simp add: array_sort_Nil_iff)
  then have "?m \<in> set (array_sort byUpdatedAtDesc xs)" by simp
  then have m: "?m \<in> set xs" by (simp add: set_array_sort)
  have g: "\<forall>y\<in>set xs. updatedAt y \<le> updatedAt ?m"
    using hd_array_sort_greatest[of xs] by (simp add: set_array_sort)
  from m g assms show ?thesis
    by (auto simp: loadSessions_Some intro!: bexI[of _ ?m])
qed

lemma loadSessions_same_sessions:
  "xs \<noteq> [] \<Longrightarrow> mset (sessions (loadSessions e (Some xs) st)) = mset xs"
  by (simp add: loadSessions_Some mset_array_sort)


lemma deleteSession_other:
  assumes "activeSessionId st \<noteq> Some i"
  shows "deleteSession sched e e' i st =
     st\<lparr>sessions := filter (\<lambda>s. session_id s \<noteq> i) (sessions st)\<rparr>"
  using assms
  by (cases sched) (auto simp: deleteSession_def deleteUpdater_def Let_def run_effects_def)

lemma deleteSession_next:
  assumes "activeSessionId st = Some i"
    and "filter (\<lambda>s. session_id s \<noteq> i) (sessions st) = n # rest"
  shows "deleteSession sched e e' i st =
     st\<lparr>sessions := n # rest, activeSessionId := Some (session_id n),
        messages := session_messages n\<rparr>"
  using assms
  by (cases sched) (simp_all add: deleteSession_def deleteUpdater_def Let_def run_effects_def)

lemma deleteSession_last:
  assumes "activeSessionId st = Some i"
    and "filter (\<lambda>s. session_id s \<noteq> i) (sessions st) = []"
  shows "deleteSession AtRender e e' i st =
           st\<lparr>sessions := [newSession e], activeSessionId := Some (generatedId e), messages := []\<rparr>"
    and "deleteSession EagerInHandler e e' i st =
           st\<lparr>sessions := [], activeSessionId := Some (generatedId e), messages := []\<rparr>"
    and "deleteSession TwiceAtRender e e' i st =
           st\<lparr>sessions := [newSession e', newSession e], activeSessionId := Some (generatedId e'),
              messages := []\<rparr>"
  using assms
  by (simp_all add: deleteSession_def deleteUpdater_def Let_def run_effects_def
      createNewSession_calls_def newSession_def)

lemma store_inv_create:
  "distinct (session_ids st) \<Longrightarrow> generatedId e \<notin> set (session_ids st) \<Longrightarrow>
   store_inv (createNewSession e st)"
  by (simp add: store_inv_def createNewSession_store session_ids_def activeListed_def newSession_def)

lemma store_inv_delete:
  assumes "store_inv st" and "generatedId e \<noteq> generatedId e'"
  shows "store_inv (deleteSession sched e e' i st)"
proof (cases "activeSessionId st = Some i")
  case False
  from assms(1) have d: "distinct (map session_id (filter (\<lambda>s. session_id s \<noteq> i) (sessions st)))"
    by (simp add: store_inv_def session_ids_def distinct_map_filter)
  have "activeListed (st\<lparr>sessions := filter (\<lambda>s. session_id s \<noteq> i) (sessions st)\<rparr>)"
    if "filter (\<lambda>s. session_id s \<noteq> i) (sessions st) \<noteq> []"
  proof -
    from that have "sessions st \<noteq> []" by auto
    with assms(1) obtain a where a: "activeSessionId st = Some a" "a \<in> session_id ` set (sessions st)"
      by (auto simp: store_inv_def activeListed_def session_ids_def split: option.splits)
    with False have "a \<in> session_id ` set (filter (\<lambda>s. session_id s \<noteq> i) (sessions st))"
      by auto
    with a show ?thesis by (simp add: activeListed_def session_ids_def)
  qed
  with d show ?thesis
    by (auto simp: deleteSession_other[OF False] store_inv_def session_ids_def)
next
  case True
  show ?thesis
  proof (cases "filter (\<lambda>s. session_id s \<noteq> i) (sessions st)")
    case Nil
    with True assms(2) show ?thesis
      by (cases sched)
         (auto simp: deleteSession_last store_inv_def session_ids_def activeListed_def newSession_def)
  next
    case (Cons n rest)
    from assms(1) have "distinct (map session_id (filter (\<lambda>s. session_id s \<noteq> i) (sessions st)))"
      by (simp add: store_inv_def session_ids_def distinct_map_filter)
    with Cons show ?thesis
      by (simp add: deleteSession_next[OF True Cons] store_inv_def session_ids_def activeListed_def)
  qed
qed

lemma store_inv_run:
  "store_inv st \<Longrightarrow> fresh_ids st ops \<Longrightarrow> store_inv (run_ops st ops)"
proof (induction ops arbitrary: st)
  case Nil
  then show ?case by (simp add: run_ops_def)
next
  case (Cons op ops)
  have s: "run_ops st (op # ops) = run_ops (step st op) ops"
    by (simp add: run_ops_def)
  have i: "store_inv (step st op)"
  proof (cases op)
    case (CreateSession e)
    with Cons.prems show ?thesis
      using store_inv_create[of st e] by (simp add: store_inv_def)
  next
    case (DeleteSession sched i e e')
    with Cons.prems show ?thesis
      by (simp add: store_inv_delete)
  qed
  have f: "fresh_ids (step st op) ops"
    using Cons.prems(2) by (cases op) simp_all
  from Cons.IH[OF i f] s show ?case by simp
qed

lemma store_inv_load:
  assumes "distinct_saved saved"
  shows "store_inv (loadSessions e saved initialStore)"
proof (cases saved)
  case None
  then show ?thesis
    by (simp add: loadSessions_None store_inv_create initialStore_def session_ids_def)
next
  case (Some xs)
  show ?thesis
  proof (cases "xs = []")
    case True
    with Some show ?thesis
      by (simp add: loadSessions_empty store_inv_create initialStore_def session_ids_def)
  next
    case False
    then have "array_sort byUpdatedAtDesc xs \<noteq> []"
      by (simp add: array_sort_Nil_iff)
    then have "hd (array_sort byUpdatedAtDesc xs) \<in> set (array_sort byUpdatedAtDesc xs)"
      by simp
    with False Some assms show ?thesis
      by (simp add: loadSessions_Some store_inv_def session_ids_def activeListed_def
          distinct_saved_def distinct_ids_array_sort)
  qed
qed

lemma store_inv_activeCount:
  assumes "store_inv st" and "sessions st \<noteq> []"
  shows "activeCount st = 1"
proof -
  from assms obtain a where a: "activeSessionId st = Some a" "a \<in> session_id ` set (sessions st)"
    by (auto simp: store_inv_def activeListed_def session_ids_def split: option.splits)
  from assms have "distinct (map session_id (sessions st))"
    by (simp add: store_inv_def session_ids_def)
  from count_distinct_ids[OF this a(2)] a show ?thesis
    by (auto simp: activeCount_def)
qed

lemma deleteSession_remaining:
  assumes "filter (\<lambda>s. session_id s \<noteq> i) (sessions st) \<noteq> []"
  shows "sessions (deleteSession sched e e' i st) = filter (\<lambda>s. session_id s \<noteq> i) (sessions st)"
    and "activeSessionId st = Some i \<Longrightarrow>
           activeSessionId (deleteSession sched e e' i st) =
             Some (session_id (hd (filter (\<lambda>s. session_id s \<noteq> i) (sessions st)))) \<and>
           messages (deleteSession sched e e' i st) =
             session_messages (hd (filter (\<lambda>s. session_id s \<noteq> i) (sessions st)))"
    and "activeSessionId st \<noteq> Some i \<Longrightarrow>
           activeSessionId (deleteSession sched e e' i st) = activeSessionId st \<and>
           messages (deleteSession sched e e' i st) = messages st"
proof -
  from assms obtain n rest where r: "filter (\<lambda>s. session_id s \<noteq> i) (sessions st) = n # rest"
    by (cases "filter (\<lambda>s. session_id s \<noteq> i) (sessions st)") auto
  show "sessions (deleteSession sched e e' i st) = filter (\<lambda>s. session_id s \<noteq> i) (sessions st)"
    by (cases "activeSessionId st = Some i")
       (simp_all add: deleteSession_next[OF _ r] deleteSession_other r)
  show "activeSessionId st = Some i \<Longrightarrow>
           activeSessionId (deleteSession sched e e' i st) =
             Some (session_id (hd (filter (\<lambda>s. session_id s \<noteq> i) (sessions st)))) \<and>
           messages (deleteSession sched e e' i st) =
             session_messages (hd (filter (\<lambda>s. session_id s \<noteq> i) (sessions st)))"
    by (simp add: deleteSession_next[OF _ r] r)
  show "activeSessionId st \<noteq> Some i \<Longrightarrow>
           activeSessionId (deleteSession sched e e' i st) = activeSessionId st \<and>
           messages (deleteSession sched e e' i st) = messages st"
    by (simp add: deleteSession_other)
qed

lemma example_last:
  "activeSessionId exampleStore = Some (utf16 ''a1b2c3d4'')"
  "filter (\<lambda>s. session_id s \<noteq> utf16 ''a1b2c3d4'') (sessions exampleStore) = []"
  by (simp_all add: exampleStore_def exampleSession_def)

lemma load_none_example:
  "loadSessions exampleEntropy None initialStore =
     \<lparr>sessions = [newSession exampleEntropy], activeSessionId = Some (utf16 ''k3x9q2ab''),
      messages = [], isLoading = False\<rparr>"
  by (simp add: loadSessions_None createNewSession_store initialStore_def exampleEntropy_def)

lemma example_ids:
  "session_id (newSession exampleEntropy) = utf16 ''k3x9q2ab''"
  "session_id (newSession repeatedEntropy) = utf16 ''k3x9q2ab''"
  "session_id (newSession otherEntropy) = utf16 ''zz91kq07''"
  "session_id (newSession thirdEntropy) = utf16 ''m4p8w1xy''"
  "generatedId exampleEntropy = utf16 ''k3x9q2ab''"
  "generatedId repeatedEntropy = utf16 ''k3x9q2ab''"
  "generatedId otherEntropy = utf16 ''zz91kq07''"
  "generatedId thirdEntropy = utf16 ''m4p8w1xy''"
  "session_id olderSession = utf16 ''aaaa1111''"
  "session_id newerSession = utf16 ''bbbb2222''"
  by (simp_all add: newSession_def exampleEntropy_def repeatedEntropy_def otherEntropy_def
      thirdEntropy_def olderSession_def newerSession_def)

lemma example_ids_differ:
  "utf16 ''aaaa1111'' \<noteq> utf16 ''bbbb2222''"
  "utf16 ''zz91kq07'' \<noteq> utf16 ''k3x9q2ab''"
  "utf16 ''k3x9q2ab'' \<noteq> utf16 ''zz91kq07''"
  "utf16 ''zz91kq07'' \<noteq> utf16 ''m4p8w1xy''"
  "utf16 ''k3x9q2ab'' \<noteq> utf16 ''m4p8w1xy''"
  by (simp_all add: utf16_def)

text \<open>
  Claim C7, at a concrete input: a store whose only session is the active one, and that
  session deleted. The updater calls \<open>createNewSession()\<close>, and what is left depends on
  how React runs the updater: one new session when it runs once at render, no session
  when it runs eagerly inside the handler, two new sessions when it runs twice. The list
  does not always have length 1. (While sessions remain, every way of running the
  updater leaves the remaining sessions and activates the first of them:
  \<open>deleteSession_remaining\<close>.)
\<close>

theorem deleteSession_last_session_count:
  "sessions exampleStore = [exampleSession] \<and>
   session_id exampleSession = utf16 ''a1b2c3d4'' \<and>
   activeSessionId exampleStore = Some (utf16 ''a1b2c3d4'') \<and>
   sessions (deleteSession EagerInHandler exampleEntropy otherEntropy (utf16 ''a1b2c3d4'') exampleStore) = [] \<and>
   sessions (deleteSession TwiceAtRender exampleEntropy otherEntropy (utf16 ''a1b2c3d4'') exampleStore)
     = [newSession otherEntropy, newSession exampleEntropy] \<and>
   sessions (deleteSession AtRender exampleEntropy otherEntropy (utf16 ''a1b2c3d4'') exampleStore)
     = [newSession exampleEntropy]"
  by (simp add: deleteSession_last[OF example_last]) (simp add: exampleStore_def exampleSession_def)

text \<open>
  Claim C8, at a concrete input: two sessions persisted in the order older, newer. The
  mount effect hands \<open>setSessions\<close> the parsed array and then sorts that same array in
  place, so the session list of the store is in the order newer, older, not in the
  persisted order.
\<close>

theorem load_reorders_sessions:
  "sessions (loadSessions exampleEntropy (Some [olderSession, newerSession]) initialStore)
     = [newerSession, olderSession] \<and>
   [newerSession, olderSession] \<noteq> [olderSession, newerSession]"
  by (simp add: load_example) (simp add: newerSession_def olderSession_def)

text \<open>
  Claim C9, as stated, fails twice over. Nothing keeps \<open>generateId\<close> from drawing an
  identifier again: after a \<open>createSession\<close> that repeats the identifier of the session
  in the list, the active identifier names two sessions. And a list left empty by a
  \<open>deleteSession\<close> whose updater ran eagerly stays empty under a further
  \<open>deleteSession\<close>.
\<close>

theorem repeated_id_and_empty_list:
  "activeCount (run_ops (loadSessions exampleEntropy None initialStore)
      [CreateSession repeatedEntropy]) = 2 \<and>
   sessions (run_ops (loadSessions exampleEntropy None initialStore)
      [DeleteSession EagerInHandler (utf16 ''k3x9q2ab'') otherEntropy thirdEntropy]) = [] \<and>
   sessions (run_ops (loadSessions exampleEntropy None initialStore)
      [DeleteSession EagerInHandler (utf16 ''k3x9q2ab'') otherEntropy thirdEntropy,
       DeleteSession AtRender (utf16 ''k3x9q2ab'') otherEntropy thirdEntropy]) = []"
proof -
  let ?init = "loadSessions exampleEntropy None initialStore"
  have 1: "activeCount (run_ops ?init [CreateSession repeatedEntropy]) = 2"
    by (simp add: run_ops_def load_none_example createNewSession_store activeCount_def example_ids)
  have a: "activeSessionId ?init = Some (utf16 ''k3x9q2ab'')"
    "filter (\<lambda>s. session_id s \<noteq> utf16 ''k3x9q2ab'') (sessions ?init) = []"
    by (simp_all add: load_none_example example_ids)
  have d: "deleteSession EagerInHandler otherEntropy thirdEntropy (utf16 ''k3x9q2ab'') ?init =
      \<lparr>sessions = [], activeSessionId = Some (utf16 ''zz91kq07''), messages = [], isLoading = False\<rparr>"
    by (simp add: deleteSession_last[OF a] example_ids) (simp add: load_none_example)
  have 2: "sessions (run_ops ?init
      [DeleteSession EagerInHandler (utf16 ''k3x9q2ab'') otherEntropy thirdEntropy]) = []"
    by (simp add: run_ops_def d)
  have 3: "sessions (run_ops ?init
      [DeleteSession EagerInHandler (utf16 ''k3x9q2ab'') otherEntropy thirdEntropy,
       DeleteSession AtRender (utf16 ''k3x9q2ab'') otherEntropy thirdEntropy]) = []"
    using example_ids_differ by (simp add: run_ops_def d deleteSession_other)
  from 1 2 3 show ?thesis by simp
qed

text \<open>
  Claim C9, amended. Start from the store the mount effect leaves (persisted sessions
  with distinct identifiers, or none) and run any sequence of \<open>createSession\<close> and
  \<open>deleteSession\<close>, the updater run in whichever way, in which every generated identifier
  is new. Then whenever the list is not empty the active identifier names exactly one
  session of it, and whenever it is empty a \<open>createSession\<close> leaves exactly one session,
  the active one.
\<close>

theorem one_active_session:
  assumes "distinct_saved saved" and "fresh_ids (loadSessions e0 saved initialStore) ops"
  shows "(sessions (run_ops (loadSessions e0 saved initialStore) ops) \<noteq> [] \<longrightarrow>
            activeCount (run_ops (loadSessions e0 saved initialStore) ops) = 1) \<and>
         (\<forall>e. sessions (run_ops (loadSessions e0 saved initialStore) ops) = [] \<longrightarrow>
            length (sessions (step (run_ops (loadSessions e0 saved initialStore) ops)
                                   (CreateSession e))) = 1 \<and>
            activeCount (step (run_ops (loadSessions e0 saved initialStore) ops)
                              (CreateSession e)) = 1)"
proof -
  have "store_inv (run_ops (loadSessions e0 saved initialStore) ops)"
    using assms by (simp add: store_inv_load store_inv_run)
  then have 1: "sessions (run_ops (loadSessions e0 saved initialStore) ops) \<noteq> [] \<longrightarrow>
         activeCount (run_ops (loadSessions e0 saved initialStore) ops) = 1"
    by (simp add: store_inv_activeCount)
  have 2: "length (sessions (step st (CreateSession e))) = 1 \<and>
            activeCount (step st (CreateSession e)) = 1" if "sessions st = []" for st e
    using that by (simp add: createNewSession_store activeCount_def newSession_def)
  from 1 2 show ?thesis by blast
qed

theorem one_active_session_witness:
  "distinct_saved (Some [olderSession, newerSession]) \<and>
   fresh_ids (loadSessions exampleEntropy (Some [olderSession, newerSession]) initialStore)
     [DeleteSession AtRender (utf16 ''bbbb2222'') exampleEntropy otherEntropy,
      DeleteSession EagerInHandler (utf16 ''aaaa1111'') exampleEntropy otherEntropy] \<and>
   sessions (run_ops (loadSessions exampleEntropy (Some [olderSession, newerSession]) initialStore)
     [DeleteSession AtRender (utf16 ''bbbb2222'') exampleEntropy otherEntropy]) = [olderSession] \<and>
   activeCount (run_ops (loadSessions exampleEntropy (Some [olderSession, newerSession]) initialStore)
     [DeleteSession AtRender (utf16 ''bbbb2222'') exampleEntropy otherEntropy]) = 1 \<and>
   sessions (run_ops (loadSessions exampleEntropy (Some [olderSession, newerSession]) initialStore)
     [DeleteSession AtRender (utf16 ''bbbb2222'') exampleEntropy otherEntropy,
      DeleteSession EagerInHandler (utf16 ''aaaa1111'') exampleEntropy otherEntropy]) = [] \<and>
   activeCount (step
     (run_ops (loadSessions exampleEntropy (Some [olderSession, newerSession]) initialStore)
       [DeleteSession AtRender (utf16 ''bbbb2222'') exampleEntropy otherEntropy,
        DeleteSession EagerInHandler (utf16 ''aaaa1111'') exampleEntropy otherEntropy])
     (CreateSession thirdEntropy)) = 1"
proof -
  let ?init = "loadSessions exampleEntropy (Some [olderSession, newerSession]) initialStore"
  let ?d1 = "DeleteSession AtRender (utf16 ''bbbb2222'') exampleEntropy otherEntropy"
  let ?d2 = "DeleteSession EagerInHandler (utf16 ''aaaa1111'') exampleEntropy otherEntropy"
  have h1: "distinct_saved (Some [olderSession, newerSession])"
    by (simp add: distinct_saved_def example_ids example_ids_differ)
  have a1: "activeSessionId ?init = Some (utf16 ''bbbb2222'')"
    "filter (\<lambda>s. session_id s \<noteq> utf16 ''bbbb2222'') (sessions ?init) = [olderSession]"
    using example_ids_differ by (simp_all add: load_example example_ids)
  have s1: "deleteSession AtRender exampleEntropy otherEntropy (utf16 ''bbbb2222'') ?init =
      \<lparr>sessions = [olderSession], activeSessionId = Some (utf16 ''aaaa1111''),
       messages = session_messages olderSession, isLoading = False\<rparr>"
    by (simp add: deleteSession_next[OF a1] example_ids) (simp add: load_example)
  have a2: "activeSessionId \<lparr>sessions = [olderSession], activeSessionId = Some (utf16 ''aaaa1111''),
       messages = session_messages olderSession, isLoading = False\<rparr> = Some (utf16 ''aaaa1111'')"
    "filter (\<lambda>s. session_id s \<noteq> utf16 ''aaaa1111'')
       (sessions \<lparr>sessions = [olderSession], activeSessionId = Some (utf16 ''aaaa1111''),
       messages = session_messages olderSession, isLoading = False\<rparr>) = []"
    by (simp_all add: example_ids)
  have s2: "deleteSession EagerInHandler exampleEntropy otherEntropy (utf16 ''aaaa1111'')
      \<lparr>sessions = [olderSession], activeSessionId = Some (utf16 ''aaaa1111''),
       messages = session_messages olderSession, isLoading = False\<rparr> =
      \<lparr>sessions = [], activeSessionId = Some (utf16 ''k3x9q2ab''), messages = [], isLoading = False\<rparr>"
    by (simp add: deleteSession_last[OF a2] example_ids)
  have r1: "run_ops ?init [?d1] = \<lparr>sessions = [olderSession], activeSessionId = Some (utf16 ''aaaa1111''),
       messages = session_messages olderSession, isLoading = False\<rparr>"
    by (simp add: run_ops_def s1)
  have r2: "run_ops ?init [?d1, ?d2] =
      \<lparr>sessions = [], activeSessionId = Some (utf16 ''k3x9q2ab''), messages = [], isLoading = False\<rparr>"
    by (simp add: run_ops_def s1 s2)
  have h2: "fresh_ids ?init [?d1, ?d2]"
    using example_ids_differ by (simp add: s1 s2 example_ids)
  then have h2': "fresh_ids ?init [?d1]"
    by simp
  have e1: "sessions (run_ops ?init [?d1]) \<noteq> []" and e2: "sessions (run_ops ?init [?d1, ?d2]) = []"
    by (simp_all add: r1 r2)
  from one_active_session[OF h1 h2'] e1
  have c1: "activeCount (run_ops ?init [?d1]) = 1" by blast
  from one_active_session[OF h1 h2] e2
  have c2: "activeCount (step (run_ops ?init [?d1, ?d2]) (CreateSession thirdEntropy)) = 1" by blast
  from h1 h2 c1 c2 show ?thesis by (simp add: r1 r2)
qed

end
